theory Spec2Isabelle
  imports Complex_Main
begin

section \<open>Solar cell simulation engine: electrical model and feasibility check\<close>

text \<open>
  The development embeds two pieces of the repository:
  \<^item> \<^verbatim>\<open>simulate_electrical\<close> of \<^verbatim>\<open>simulator/electrical.py\<close>, and
  \<^item> the feasibility check of \<^verbatim>\<open>app.py\<close> (the statements around \<^verbatim>\<open>valid_pairs\<close>).

  Numbers. Python integers are unbounded and are modelled by \<^typ>\<open>int\<close>. Python floats
  are modelled by exact rationals (\<^typ>\<open>rat\<close>): every float operation of the source is
  the exact operation on its operands, and every decimal literal is the rational it
  denotes. The rounding error of binary floating point and its finite range are therefore
  outside this model; what is proved is a property of the formulas the program evaluates.
\<close>

subsection \<open>Python values, dictionaries and exceptions\<close>

text \<open>
  The layers are Python dictionaries whose values are strings (role, material, toxicity)
  and integers (thickness). A dictionary is an association list read with \<^const>\<open>map_of\<close>;
  subscripting a missing key raises \<^verbatim>\<open>KeyError\<close>, adding a string to a number raises
  \<^verbatim>\<open>TypeError\<close>.
\<close>

datatype py_value = PyInt int | PyStr string

datatype py_error = KeyError string | TypeError

type_synonym layer = "(string \<times> py_value) list"

definition getitem :: "layer \<Rightarrow> string \<Rightarrow> py_error + py_value" where
  "getitem d k = (case map_of d k of None \<Rightarrow> Inl (KeyError k) | Some v \<Rightarrow> Inr v)"

text \<open>
  The dictionary literal of \<^verbatim>\<open>app.py\<close> (lines 39 to 44), with which the application
  builds every layer.
\<close>

definition make_layer :: "string \<Rightarrow> string \<Rightarrow> int \<Rightarrow> string \<Rightarrow> layer" where
  "make_layer role material thickness toxicity =
     [(''role'', PyStr role), (''material'', PyStr material),
      (''thickness'', PyInt thickness), (''toxicity'', PyStr toxicity)]"

subsection \<open>Rounding\<close>

text \<open>
  \<^verbatim>\<open>round(x, ndigits)\<close> gives the multiple of \<open>10\<^sup>-\<^sup>n\<close> closest to \<open>x\<close>, and of two
  equally close multiples the even one.
\<close>

definition round_half_even :: "rat \<Rightarrow> int" where
  "round_half_even x =
     (let f = \<lfloor>x\<rfloor>; d = x - of_int f
      in if d < 1 / 2 then f else if 1 / 2 < d then f + 1 else if even f then f else f + 1)"

definition py_round :: "rat \<Rightarrow> nat \<Rightarrow> rat" where
  "py_round x ndigits = of_int (round_half_even (x * 10 ^ ndigits)) / 10 ^ ndigits"

subsection \<open>The electrical model\<close>

record electrical_result =
  pce :: rat
  voc :: rat
  jsc :: rat
  iv_curve :: "rat list"

text \<open>
  \<^verbatim>\<open>sum(layer["thickness"] for layer in layers)\<close>: the generator subscripts one layer,
  \<^verbatim>\<open>sum\<close> adds the value to its accumulator (which starts at 0), and so on through the
  list.
\<close>

fun sum_thickness :: "int \<Rightarrow> layer list \<Rightarrow> py_error + int" where
  "sum_thickness acc [] = Inr acc"
| "sum_thickness acc (layer # layers) =
     (case getitem layer ''thickness'' of
        Inl e \<Rightarrow> Inl e
      | Inr (PyInt t) \<Rightarrow> sum_thickness (acc + t) layers
      | Inr (PyStr s) \<Rightarrow> Inl TypeError)"

text \<open>The generator \<^verbatim>\<open>layer["material"] for layer in layers\<close>, consumed by \<^verbatim>\<open>set\<close>.\<close>

fun materials :: "layer list \<Rightarrow> py_error + py_value list" where
  "materials [] = Inr []"
| "materials (layer # layers) =
     (case getitem layer ''material'' of
        Inl e \<Rightarrow> Inl e
      | Inr m \<Rightarrow> (case materials layers of Inl e \<Rightarrow> Inl e | Inr ms \<Rightarrow> Inr (m # ms)))"

definition simulate_electrical :: "layer list \<Rightarrow> py_error + electrical_result" where
  "simulate_electrical layers =
     (case sum_thickness 0 layers of
        Inl e \<Rightarrow> Inl e
      | Inr total_thickness \<Rightarrow>
          (case materials layers of
             Inl e \<Rightarrow> Inl e
           | Inr ms \<Rightarrow>
               (let unique_materials = card (set ms)
                in Inr \<lparr>pce = py_round (10 + 0.1 * of_nat unique_materials
                                          + 0.005 * of_int total_thickness) 2,
                        voc = py_round (0.6 + 0.01 * of_nat unique_materials) 2,
                        jsc = py_round (20 + 0.02 * of_int total_thickness) 1,
                        iv_curve = map (\<lambda>i. of_nat i * 0.05
                                             + 0.01 * of_int total_thickness / 1000)
                                       [0..<100]\<rparr>)))"

subsection \<open>The feasibility check\<close>

text \<open>
  \<^verbatim>\<open>app.py\<close>, lines 55 to 62. The check ends in one of two calls: \<^verbatim>\<open>st.error\<close> with a message
  that names the two materials (\<open>Incompatible\<close>, carrying the pair the message prints), or
  \<^verbatim>\<open>st.success\<close> (\<open>Passed\<close>).
\<close>

datatype feasibility = Incompatible py_value py_value | Passed

definition valid_pairs :: "(py_value \<times> py_value) list" where
  "valid_pairs = [(PyStr ''FTO'', PyStr ''TiO2''), (PyStr ''FTO'', PyStr ''SnO2''),
                  (PyStr ''AZO'', PyStr ''ZnO'')]"

text \<open>
  \<^verbatim>\<open>next((l for l in layers if l["role"] == r), None)\<close>: the first layer whose role is \<open>r\<close>,
  \<^verbatim>\<open>None\<close> when the list has none. Every layer met before it is subscripted.
\<close>

fun find_role :: "string \<Rightarrow> layer list \<Rightarrow> py_error + layer option" where
  "find_role r [] = Inr None"
| "find_role r (l # layers) =
     (case getitem l ''role'' of
        Inl e \<Rightarrow> Inl e
      | Inr v \<Rightarrow> if v = PyStr r then Inr (Some l) else find_role r layers)"

text \<open>Truth value of \<^verbatim>\<open>None\<close> or a dictionary: an empty dictionary is false.\<close>

definition truthy :: "layer option \<Rightarrow> bool" where
  "truthy x = (case x of None \<Rightarrow> False | Some d \<Rightarrow> d \<noteq> [])"

definition feasibility_check :: "layer list \<Rightarrow> py_error + feasibility" where
  "feasibility_check layers =
     (case find_role ''TCO'' layers of
        Inl e \<Rightarrow> Inl e
      | Inr tco \<Rightarrow>
          (case find_role ''ETL'' layers of
             Inl e \<Rightarrow> Inl e
           | Inr etl \<Rightarrow>
               if truthy tco \<and> truthy etl then
                 (case getitem (the tco) ''material'' of
                    Inl e \<Rightarrow> Inl e
                  | Inr tm \<Rightarrow>
                      (case getitem (the etl) ''material'' of
                         Inl e \<Rightarrow> Inl e
                       | Inr em \<Rightarrow>
                           if (tm, em) \<notin> set valid_pairs then Inr (Incompatible tm em)
                           else Inr Passed))
               else Inr Passed))"

subsection \<open>Structurally valid stacks\<close>

text \<open>
  A stack is structurally valid when it has between 2 and 6 layers and every layer carries
  a material identifier (a string) and a positive integer thickness.
\<close>

definition has_material :: "layer \<Rightarrow> bool" where
  "has_material l = (case map_of l ''material'' of Some (PyStr m) \<Rightarrow> True | _ \<Rightarrow> False)"

definition positive_thickness :: "layer \<Rightarrow> bool" where
  "positive_thickness l = (case map_of l ''thickness'' of Some (PyInt t) \<Rightarrow> 0 < t | _ \<Rightarrow> False)"



subsection \<open>Example stacks\<close>

text \<open>
  The stack of the end-to-end scenario: FTO 50 nm, TiO2 30 nm, Si 300 nm, built as the
  application builds it.
\<close>

definition scenario_stack :: "layer list" where
  "scenario_stack =
     [make_layer ''TCO'' ''FTO'' 50 ''Low'', make_layer ''ETL'' ''TiO2'' 30 ''Low'',
      make_layer ''Absorber'' ''Si'' 300 ''Low'']"

text \<open>The same roles, materials and thicknesses, without toxicity and with the keys in another order.\<close>

definition scenario_stack_bare :: "layer list" where
  "scenario_stack_bare =
     [[(''thickness'', PyInt 50), (''material'', PyStr ''FTO''), (''role'', PyStr ''TCO'')],
      [(''thickness'', PyInt 30), (''material'', PyStr ''TiO2''), (''role'', PyStr ''ETL'')],
      [(''thickness'', PyInt 300), (''material'', PyStr ''Si''), (''role'', PyStr ''Absorber'')]]"

text \<open>The scenario stack with a thicker absorber.\<close>

definition thicker_scenario_stack :: "layer list" where
  "thicker_scenario_stack =
     [make_layer ''TCO'' ''FTO'' 50 ''Low'', make_layer ''ETL'' ''TiO2'' 30 ''Low'',
      make_layer ''Absorber'' ''Si'' 400 ''Low'']"

text \<open>Four layers of other roles, thicknesses and materials, three of the materials distinct.\<close>

definition other_stack :: "layer list" where
  "other_stack =
     [make_layer ''ETL'' ''ZnO'' 10 ''Low'', make_layer ''HTL'' ''ZnO'' 20 ''Low'',
      make_layer ''Back Contact'' ''Ag'' 100 ''Low'',
      make_layer ''Absorber'' ''CdTe'' 500 ''High'']"



text \<open>A stack whose TCO and ETL materials are not a compatible pair, and one without a TCO layer.\<close>

definition ito_zno_stack :: "layer list" where
  "ito_zno_stack =
     [make_layer ''TCO'' ''ITO'' 50 ''Low'', make_layer ''ETL'' ''ZnO'' 30 ''Low'',
      make_layer ''Absorber'' ''Si'' 300 ''Low'']"

definition no_tco_stack :: "layer list" where
  "no_tco_stack =
     [make_layer ''ETL'' ''ZnO'' 30 ''Low'', make_layer ''Absorber'' ''Si'' 300 ''Low'']"

section \<open>Auxiliary facts\<close>

subsection \<open>Subscripting and rounding\<close>

lemma getitem_Inr: "getitem d k = Inr v \<longleftrightarrow> map_of d k = Some v"
  by (simp add: getitem_def split: option.splits)

lemma getitem_Inl: "getitem d k = Inl e \<longleftrightarrow> map_of d k = None \<and> e = KeyError k"
  by (auto simp add: getitem_def split: option.splits)


lemma round_half_even_bounds:
  "of_int (round_half_even x) \<le> x + 1 / 2" "x - 1 / 2 \<le> of_int (round_half_even x)"
  unfolding round_half_even_def Let_def
  by (auto simp: not_less) linarith+








subsection \<open>Summing thicknesses and collecting materials\<close>

lemma sum_thickness_cong:
  "map (\<lambda>l. map_of l ''thickness'') xs = map (\<lambda>l. map_of l ''thickness'') ys
     \<Longrightarrow> sum_thickness acc xs = sum_thickness acc ys"
proof (induction xs arbitrary: ys acc)
  case Nil
  then show ?case by simp
next
  case (Cons x xs)
  then obtain y ys' where ys: "ys = y # ys'" by (cases ys) auto
  with Cons.prems have hd: "map_of x ''thickness'' = map_of y ''thickness''"
    and tl: "map (\<lambda>l. map_of l ''thickness'') xs = map (\<lambda>l. map_of l ''thickness'') ys'"
    by simp_all
  show ?case
    by (simp add: ys getitem_def hd Cons.IH [OF tl] split: option.splits py_value.splits)
qed

lemma materials_cong:
  "map (\<lambda>l. map_of l ''material'') xs = map (\<lambda>l. map_of l ''material'') ys
     \<Longrightarrow> materials xs = materials ys"
proof (induction xs arbitrary: ys)
  case Nil
  then show ?case by simp
next
  case (Cons x xs)
  then obtain y ys' where ys: "ys = y # ys'" by (cases ys) auto
  with Cons.prems have hd: "map_of x ''material'' = map_of y ''material''"
    and tl: "map (\<lambda>l. map_of l ''material'') xs = map (\<lambda>l. map_of l ''material'') ys'"
    by simp_all
  show ?case
    by (simp add: ys getitem_def hd Cons.IH [OF tl] split: option.splits)
qed

lemma sum_thickness_positive:
  "list_all positive_thickness ls \<Longrightarrow>
     \<exists>T. sum_thickness acc ls = Inr T \<and> acc + int (length ls) \<le> T"
proof (induction ls arbitrary: acc)
  case Nil
  then show ?case by simp
next
  case (Cons l ls)
  from Cons.prems obtain t where t: "map_of l ''thickness'' = Some (PyInt t)" "0 < t"
    by (auto simp: positive_thickness_def split: option.splits py_value.splits)
  from Cons.prems have "list_all positive_thickness ls" by simp
  from Cons.IH [OF this, of "acc + t"] obtain T
    where "sum_thickness (acc + t) ls = Inr T" "acc + t + int (length ls) \<le> T" by blast
  with t show ?case by (simp add: getitem_def)
qed

lemma materials_total:
  "list_all has_material ls \<Longrightarrow> \<exists>ms. materials ls = Inr ms \<and> length ms = length ls"
proof (induction ls)
  case Nil
  then show ?case by simp
next
  case (Cons l ls)
  then obtain ms where "materials ls = Inr ms" "length ms = length ls" by auto
  moreover from Cons.prems obtain m where "map_of l ''material'' = Some (PyStr m)"
    by (auto simp: has_material_def split: option.splits py_value.splits)
  ultimately show ?case by (simp add: getitem_def)
qed



lemma simulate_electrical_Inr:
  "simulate_electrical ls = Inr r \<longleftrightarrow>
     (\<exists>T ms. sum_thickness 0 ls = Inr T \<and> materials ls = Inr ms \<and>
        r = \<lparr>pce = py_round (10 + 0.1 * of_nat (card (set ms)) + 0.005 * of_int T) 2,
             voc = py_round (0.6 + 0.01 * of_nat (card (set ms))) 2,
             jsc = py_round (20 + 0.02 * of_int T) 1,
             iv_curve = map (\<lambda>i. of_nat i * 0.05 + 0.01 * of_int T / 1000) [0..<100]\<rparr>)"
  by (auto simp: simulate_electrical_def Let_def split: sum.splits)

lemma simulate_electrical_total:
  assumes "list_all positive_thickness ls" "list_all has_material ls"
  shows "\<exists>r. simulate_electrical ls = Inr r"
proof -
  from sum_thickness_positive [OF assms(1), of 0] obtain T where "sum_thickness 0 ls = Inr T"
    by blast
  moreover from materials_total [OF assms(2)] obtain ms where "materials ls = Inr ms"
    by blast
  ultimately show ?thesis by (simp add: simulate_electrical_Inr)
qed




subsection \<open>The example stacks\<close>


lemma scenario_stack_result:
  "simulate_electrical scenario_stack =
     Inr \<lparr>pce = 12.2, voc = 0.63, jsc = 27.6,
          iv_curve = map (\<lambda>i. of_nat i * 0.05 + 0.0038) [0..<100]\<rparr>"
  by (simp add: simulate_electrical_def scenario_stack_def make_layer_def getitem_def
      py_round_def round_half_even_def Let_def)

lemma other_stack_result:
  "simulate_electrical other_stack =
     Inr \<lparr>pce = 13.45, voc = 0.63, jsc = 32.6,
          iv_curve = map (\<lambda>i. of_nat i * 0.05 + 0.0063) [0..<100]\<rparr>"
  by (simp add: simulate_electrical_def other_stack_def make_layer_def getitem_def
      py_round_def round_half_even_def Let_def)



subsection \<open>Finding a layer by its role\<close>

lemma find_role_Some:
  "find_role r ls = Inr (Some l) \<Longrightarrow> l \<in> set ls \<and> map_of l ''role'' = Some (PyStr r)"
  by (induction ls) (auto simp: getitem_def split: sum.splits option.splits if_splits)

lemma find_role_None:
  "find_role r ls = Inr None \<Longrightarrow> \<forall>l \<in> set ls. \<exists>v. map_of l ''role'' = Some v \<and> v \<noteq> PyStr r"
  by (induction ls) (auto simp: getitem_def split: sum.splits option.splits if_splits)

lemma find_role_find:
  "list_all (\<lambda>l. map_of l ''role'' \<noteq> None) ls \<Longrightarrow>
     find_role r ls = Inr (find (\<lambda>l. map_of l ''role'' = Some (PyStr r)) ls)"
  by (induction ls) (auto simp: getitem_def split: option.splits)

lemma find_role_truthy: "find_role r ls = Inr (Some l) \<Longrightarrow> truthy (Some l)"
  by (auto simp: truthy_def dest: find_role_Some)

lemma feasibility_check_found:
  assumes "find_role ''TCO'' ls = Inr (Some t)" and "find_role ''ETL'' ls = Inr (Some e)"
    and "getitem t ''material'' = Inr tm" and "getitem e ''material'' = Inr em"
  shows "feasibility_check ls =
           Inr (if (tm, em) \<notin> set valid_pairs then Incompatible tm em else Passed)"
  using assms find_role_truthy [OF assms(1)] find_role_truthy [OF assms(2)]
  by (simp add: feasibility_check_def)

section \<open>The electrical model: claims\<close>

text \<open>
  Claim C1. The electrical model is deterministic and pure. Two stacks that agree, layer
  by layer and in the same order, on role, material and thickness yield the same outcome
  of \<open>simulate_electrical\<close>: the same \<open>pce\<close>, \<open>voc\<close>, \<open>jsc\<close> and the same \<open>iv_curve\<close>, or the
  same exception. Nothing else is read: neither another key of a layer (such as its
  toxicity), nor the order of the keys, nor any state outside the argument.
\<close>

theorem simulate_electrical_deterministic:
  assumes "map (\<lambda>l. (map_of l ''role'', map_of l ''material'', map_of l ''thickness'')) ls1
         = map (\<lambda>l. (map_of l ''role'', map_of l ''material'', map_of l ''thickness'')) ls2"
  shows "simulate_electrical ls1 = simulate_electrical ls2"
proof -
  have "map (fst \<circ> snd) (map (\<lambda>l. (map_of l ''role'', map_of l ''material'', map_of l ''thickness'')) ls1)
      = map (fst \<circ> snd) (map (\<lambda>l. (map_of l ''role'', map_of l ''material'', map_of l ''thickness'')) ls2)"
    by (simp only: assms)
  then have m: "map (\<lambda>l. map_of l ''material'') ls1 = map (\<lambda>l. map_of l ''material'') ls2"
    by (simp add: comp_def)
  have "map (snd \<circ> snd) (map (\<lambda>l. (map_of l ''role'', map_of l ''material'', map_of l ''thickness'')) ls1)
      = map (snd \<circ> snd) (map (\<lambda>l. (map_of l ''role'', map_of l ''material'', map_of l ''thickness'')) ls2)"
    by (simp only: assms)
  then have t: "map (\<lambda>l. map_of l ''thickness'') ls1 = map (\<lambda>l. map_of l ''thickness'') ls2"
    by (simp add: comp_def)
  show ?thesis
    unfolding simulate_electrical_def sum_thickness_cong [OF t] materials_cong [OF m]
    by (rule refl)
qed

theorem simulate_electrical_deterministic_witness:
  "scenario_stack \<noteq> scenario_stack_bare \<and>
   simulate_electrical scenario_stack = simulate_electrical scenario_stack_bare"
  using simulate_electrical_deterministic [of scenario_stack scenario_stack_bare]
  by (simp add: scenario_stack_def scenario_stack_bare_def make_layer_def)















text \<open>
  Claim C10. The \<open>voc\<close> that is returned depends only on the number of distinct materials
  of the stack: two stacks with the same number of distinct materials have the same \<open>voc\<close>,
  whatever their roles, thicknesses and order. In particular two stacks with the same
  materials, layer by layer, have the same \<open>voc\<close>, whatever their thicknesses.
\<close>

theorem voc_depends_only_on_material_count:
  assumes "simulate_electrical ls1 = Inr r1" and "simulate_electrical ls2 = Inr r2"
    and "materials ls1 = Inr ms1" and "materials ls2 = Inr ms2"
  shows "(card (set ms1) = card (set ms2) \<longrightarrow> voc r1 = voc r2) \<and>
         (map (\<lambda>l. map_of l ''material'') ls1 = map (\<lambda>l. map_of l ''material'') ls2
            \<longrightarrow> voc r1 = voc r2)"
proof -
  from assms(1,3) have v1: "voc r1 = py_round (0.6 + 0.01 * of_nat (card (set ms1))) 2"
    by (auto simp: simulate_electrical_Inr)
  from assms(2,4) have v2: "voc r2 = py_round (0.6 + 0.01 * of_nat (card (set ms2))) 2"
    by (auto simp: simulate_electrical_Inr)
  have "voc r1 = voc r2" if "card (set ms1) = card (set ms2)"
    using that by (simp add: v1 v2)
  moreover have "voc r1 = voc r2"
    if "map (\<lambda>l. map_of l ''material'') ls1 = map (\<lambda>l. map_of l ''material'') ls2"
  proof -
    from materials_cong [OF that] assms(3,4) have "ms1 = ms2" by simp
    then show ?thesis by (simp add: v1 v2)
  qed
  ultimately show ?thesis by blast
qed

theorem voc_depends_only_on_material_count_witness:
  "(\<exists>r1 r2 ms1 ms2. simulate_electrical scenario_stack = Inr r1 \<and>
      simulate_electrical other_stack = Inr r2 \<and>
      materials scenario_stack = Inr ms1 \<and> materials other_stack = Inr ms2 \<and>
      ms1 \<noteq> ms2 \<and> card (set ms1) = 3 \<and> card (set ms2) = 3 \<and>
      voc r1 = 0.63 \<and> voc r2 = 0.63) \<and>
   (\<exists>r1 r2. simulate_electrical scenario_stack = Inr r1 \<and>
      simulate_electrical thicker_scenario_stack = Inr r2 \<and> voc r1 = voc r2)"
proof -
  obtain r1 where r1: "simulate_electrical scenario_stack = Inr r1" "voc r1 = 0.63"
    using scenario_stack_result by simp
  obtain r2 where r2: "simulate_electrical other_stack = Inr r2"
    using other_stack_result by simp
  have m1: "materials scenario_stack = Inr [PyStr ''FTO'', PyStr ''TiO2'', PyStr ''Si'']"
    by (simp add: scenario_stack_def make_layer_def getitem_def)
  have m2: "materials other_stack = Inr [PyStr ''ZnO'', PyStr ''ZnO'', PyStr ''Ag'', PyStr ''CdTe'']"
    by (simp add: other_stack_def make_layer_def getitem_def)
  have c1: "card (set [PyStr ''FTO'', PyStr ''TiO2'', PyStr ''Si'']) = 3" by simp
  have c2: "card (set [PyStr ''ZnO'', PyStr ''ZnO'', PyStr ''Ag'', PyStr ''CdTe'']) = 3" by simp
  from voc_depends_only_on_material_count [OF r1(1) r2 m1 m2] c1 c2
  have "voc r2 = 0.63" using r1(2) by simp
  with r1 r2 m1 m2 c1 c2 have first: "\<exists>r1 r2 ms1 ms2. simulate_electrical scenario_stack = Inr r1 \<and>
      simulate_electrical other_stack = Inr r2 \<and>
      materials scenario_stack = Inr ms1 \<and> materials other_stack = Inr ms2 \<and>
      ms1 \<noteq> ms2 \<and> card (set ms1) = 3 \<and> card (set ms2) = 3 \<and>
      voc r1 = 0.63 \<and> voc r2 = 0.63"
    by (intro exI conjI) (assumption | simp)+
  obtain r3 where r3: "simulate_electrical thicker_scenario_stack = Inr r3"
    using simulate_electrical_total [of thicker_scenario_stack]
    by (auto simp: thicker_scenario_stack_def make_layer_def positive_thickness_def has_material_def)
  have m3: "materials thicker_scenario_stack = Inr [PyStr ''FTO'', PyStr ''TiO2'', PyStr ''Si'']"
    by (simp add: thicker_scenario_stack_def make_layer_def getitem_def)
  from voc_depends_only_on_material_count [OF r1(1) r3 m1 m3]
  have "voc r1 = voc r3"
    by (simp add: scenario_stack_def thicker_scenario_stack_def make_layer_def)
  with r1 r3 have "\<exists>r1 r2. simulate_electrical scenario_stack = Inr r1 \<and>
      simulate_electrical thicker_scenario_stack = Inr r2 \<and> voc r1 = voc r2" by blast
  with first show ?thesis by blast
qed

section \<open>The feasibility check: claims\<close>

text \<open>
  Claim C5. When the TCO layer of a stack has material FTO and its ETL layer has material
  TiO2, the feasibility check passes. When the TCO layer has material ITO and the ETL layer
  has material ZnO, the check fails and reports the pair (ITO, ZnO).
\<close>

theorem feasibility_fto_tio2_passes_ito_zno_fails:
  assumes "find_role ''TCO'' ls = Inr (Some t)" and "find_role ''ETL'' ls = Inr (Some e)"
  shows "(getitem t ''material'' = Inr (PyStr ''FTO'') \<and>
          getitem e ''material'' = Inr (PyStr ''TiO2'') \<longrightarrow> feasibility_check ls = Inr Passed) \<and>
         (getitem t ''material'' = Inr (PyStr ''ITO'') \<and>
          getitem e ''material'' = Inr (PyStr ''ZnO'')
            \<longrightarrow> feasibility_check ls = Inr (Incompatible (PyStr ''ITO'') (PyStr ''ZnO'')))"
  using feasibility_check_found [OF assms]
  by (simp add: valid_pairs_def)

theorem feasibility_fto_tio2_passes_ito_zno_fails_witness:
  "feasibility_check scenario_stack = Inr Passed \<and>
   feasibility_check ito_zno_stack = Inr (Incompatible (PyStr ''ITO'') (PyStr ''ZnO''))"
proof -
  have "find_role ''TCO'' scenario_stack = Inr (Some (make_layer ''TCO'' ''FTO'' 50 ''Low''))"
    and "find_role ''ETL'' scenario_stack = Inr (Some (make_layer ''ETL'' ''TiO2'' 30 ''Low''))"
    by (simp_all add: scenario_stack_def make_layer_def getitem_def)
  from feasibility_fto_tio2_passes_ito_zno_fails [OF this]
  have 1: "feasibility_check scenario_stack = Inr Passed"
    by (simp add: make_layer_def getitem_def)
  have "find_role ''TCO'' ito_zno_stack = Inr (Some (make_layer ''TCO'' ''ITO'' 50 ''Low''))"
    and "find_role ''ETL'' ito_zno_stack = Inr (Some (make_layer ''ETL'' ''ZnO'' 30 ''Low''))"
    by (simp_all add: ito_zno_stack_def make_layer_def getitem_def)
  from feasibility_fto_tio2_passes_ito_zno_fails [OF this]
  have 2: "feasibility_check ito_zno_stack = Inr (Incompatible (PyStr ''ITO'') (PyStr ''ZnO''))"
    by (simp add: make_layer_def getitem_def)
  from 1 2 show ?thesis by simp
qed

text \<open>
  Claim C6. When the stack has no TCO layer or no ETL layer, the feasibility check passes.
  It fails, reporting the pair \<open>(a, b)\<close>, exactly when both layers are present, \<open>a\<close> is the
  material of the TCO layer, \<open>b\<close> that of the ETL layer, and \<open>(a, b)\<close> is not one of the
  compatible pairs of \<open>valid_pairs\<close>.
\<close>

theorem feasibility_fails_only_outside_whitelist:
  assumes "find_role ''TCO'' ls = Inr tco" and "find_role ''ETL'' ls = Inr etl"
  shows "(tco = None \<or> etl = None \<longrightarrow> feasibility_check ls = Inr Passed) \<and>
         (\<forall>a b. feasibility_check ls = Inr (Incompatible a b) \<longleftrightarrow>
            (\<exists>t e. tco = Some t \<and> etl = Some e \<and> getitem t ''material'' = Inr a \<and>
                   getitem e ''material'' = Inr b \<and> (a, b) \<notin> set valid_pairs))"
proof (cases "tco = None \<or> etl = None")
  case True
  then have "feasibility_check ls = Inr Passed"
    using assms by (auto simp: feasibility_check_def truthy_def)
  with True show ?thesis by auto
next
  case False
  then obtain t e where te: "tco = Some t" "etl = Some e" by auto
  have tr: "truthy (Some t)" "truthy (Some e)"
    using assms te by (auto intro: find_role_truthy)
  show ?thesis
    using assms te tr
    by (auto simp: feasibility_check_def split: sum.splits if_splits)
qed

theorem feasibility_fails_only_outside_whitelist_witness:
  "feasibility_check no_tco_stack = Inr Passed \<and>
   feasibility_check ito_zno_stack = Inr (Incompatible (PyStr ''ITO'') (PyStr ''ZnO'')) \<and>
   (PyStr ''ITO'', PyStr ''ZnO'') \<notin> set valid_pairs"
proof -
  have a: "find_role ''TCO'' no_tco_stack = Inr None"
    and b: "find_role ''ETL'' no_tco_stack = Inr (Some (make_layer ''ETL'' ''ZnO'' 30 ''Low''))"
    by (simp_all add: no_tco_stack_def make_layer_def getitem_def)
  from feasibility_fails_only_outside_whitelist [OF a b]
  have 1: "feasibility_check no_tco_stack = Inr Passed" by simp
  have c: "find_role ''TCO'' ito_zno_stack = Inr (Some (make_layer ''TCO'' ''ITO'' 50 ''Low''))"
    and d: "find_role ''ETL'' ito_zno_stack = Inr (Some (make_layer ''ETL'' ''ZnO'' 30 ''Low''))"
    by (simp_all add: ito_zno_stack_def make_layer_def getitem_def)
  have w: "(PyStr ''ITO'', PyStr ''ZnO'') \<notin> set valid_pairs"
    by (simp add: valid_pairs_def)
  from feasibility_fails_only_outside_whitelist [OF c d] w
  have 2: "feasibility_check ito_zno_stack = Inr (Incompatible (PyStr ''ITO'') (PyStr ''ZnO''))"
    by (simp add: make_layer_def getitem_def)
  from 1 2 w show ?thesis by simp
qed

end
